theory Spec2Isabelle
  imports Main "HOL-Library.Word"
begin

section \<open>Python values used by \<open>agent_invoker.py\<close>\<close>

text \<open>
  A Python \<open>str\<close> is a sequence of Unicode code points and a \<open>bytes\<close> object a sequence
  of octets. String literals of the source are ASCII and are written \<open>py ''...''\<close>.
\<close>

type_synonym pystr = "nat list"
type_synonym byte = "8 word"

abbreviation py :: "string \<Rightarrow> pystr" where
  "py s \<equiv> map of_char s"

text \<open>
  What \<open>json.loads\<close> can return: \<open>None\<close>, \<open>bool\<close>, \<open>int\<close>, \<open>float\<close> (kept as its
  IEEE-754 bit pattern; only its truth value is ever inspected), \<open>str\<close>, \<open>list\<close> and
  \<open>dict\<close> (its items in insertion order, the keys distinct).
\<close>

datatype json =
    JNull
  | JBool bool
  | JInt int
  | JFloat "64 word"
  | JStr pystr
  | JArr "json list"
  | JObj "(pystr \<times> json) list"

text \<open>
  The exceptions that can travel through \<open>invoke_agent\<close>. \<open>ClientError\<close> carries the
  service's error code and message (\<open>e.response['Error']['Code']\<close> and \<open>['Message']\<close>).
\<close>

datatype error =
    ClientError pystr pystr
  | JSONDecodeError
  | UnicodeDecodeError
  | AttributeError
  | TypeError
  | KeyError
  | OtherError pystr

type_synonym 'a result = "error + 'a"

subsection \<open>Truth value, \<open>dict.get\<close>, \<open>in\<close>, iteration, \<open>==\<close>\<close>

text \<open>Python's \<open>bool(x)\<close>; a float is false exactly when it is \<open>0.0\<close> or \<open>-0.0\<close>.\<close>

fun truthy :: "json \<Rightarrow> bool" where
  "truthy JNull = False"
| "truthy (JBool b) = b"
| "truthy (JInt i) = (i \<noteq> 0)"
| "truthy (JFloat w) = (push_bit 1 w \<noteq> 0)"
| "truthy (JStr s) = (s \<noteq> [])"
| "truthy (JArr xs) = (xs \<noteq> [])"
| "truthy (JObj kvs) = (kvs \<noteq> [])"

text \<open>\<open>x.get(key, default)\<close>: only a \<open>dict\<close> has the method.\<close>

fun py_get :: "json \<Rightarrow> pystr \<Rightarrow> json \<Rightarrow> json result" where
  "py_get (JObj kvs) k d = Inr (case map_of kvs k of None \<Rightarrow> d | Some v \<Rightarrow> v)"
| "py_get _ k d = Inl AttributeError"

text \<open>\<open>p in s\<close> for two strings: \<open>p\<close> occurs in \<open>s\<close> as a contiguous run.\<close>

fun starts_with :: "pystr \<Rightarrow> pystr \<Rightarrow> bool" where
  "starts_with [] s = True"
| "starts_with (p # ps) [] = False"
| "starts_with (p # ps) (c # cs) = (p = c \<and> starts_with ps cs)"

fun str_contains :: "pystr \<Rightarrow> pystr \<Rightarrow> bool" where
  "str_contains p [] = (p = [])"
| "str_contains p (c # cs) = (starts_with p (c # cs) \<or> str_contains p cs)"

text \<open>
  \<open>key in x\<close> for a string \<open>key\<close>: key membership on a \<open>dict\<close>, substring test on a
  \<open>str\<close>, element test on a \<open>list\<close>, and \<open>TypeError\<close> on everything else.
\<close>

fun py_in :: "pystr \<Rightarrow> json \<Rightarrow> bool result" where
  "py_in k (JObj kvs) = Inr (map_of kvs k \<noteq> None)"
| "py_in k (JStr s) = Inr (str_contains k s)"
| "py_in k (JArr xs) = Inr (JStr k \<in> set xs)"
| "py_in k _ = Inl TypeError"

text \<open>
  \<open>for item in x\<close>: the elements of a \<open>list\<close>, the keys of a \<open>dict\<close>, the one-character
  strings of a \<open>str\<close>; anything else is not iterable.
\<close>

fun py_iter :: "json \<Rightarrow> json list result" where
  "py_iter (JArr xs) = Inr xs"
| "py_iter (JObj kvs) = Inr (map (\<lambda>kv. JStr (fst kv)) kvs)"
| "py_iter (JStr s) = Inr (map (\<lambda>c. JStr [c]) s)"
| "py_iter _ = Inl TypeError"

text \<open>\<open>x == 'literal'\<close>: only a \<open>str\<close> equals a \<open>str\<close>.\<close>

fun eq_str :: "json \<Rightarrow> pystr \<Rightarrow> bool" where
  "eq_str (JStr s) l = (s = l)"
| "eq_str _ l = False"

text \<open>
  \<open>x[:200]\<close> as evaluated for the log line: fine on \<open>str\<close> and \<open>list\<close>; a \<open>dict\<close>
  has no key \<open>slice(None, 200)\<close> (Python 3.12, the runtime of the function); other
  values are not subscriptable. Only whether it raises matters.
\<close>

fun py_slice_check :: "json \<Rightarrow> unit result" where
  "py_slice_check (JStr s) = Inr ()"
| "py_slice_check (JArr xs) = Inr ()"
| "py_slice_check (JObj kvs) = Inl KeyError"
| "py_slice_check _ = Inl TypeError"

subsection \<open>\<open>str.strip()\<close>, \<open>str(int)\<close>, \<open>bytes.decode('utf-8')\<close>\<close>

text \<open>The code points for which \<open>str.isspace()\<close> holds.\<close>

definition is_space :: "nat \<Rightarrow> bool" where
  "is_space c =
     ((9 \<le> c \<and> c \<le> 13) \<or> (28 \<le> c \<and> c \<le> 32) \<or> c = 133 \<or> c = 160 \<or> c = 5760
      \<or> (8192 \<le> c \<and> c \<le> 8202) \<or> c = 8232 \<or> c = 8233 \<or> c = 8239 \<or> c = 8287
      \<or> c = 12288)"

definition strip :: "pystr \<Rightarrow> pystr" where
  "strip s = rev (dropWhile is_space (rev (dropWhile is_space s)))"

fun digits :: "nat \<Rightarrow> pystr" where
  "digits n = (if n < 10 then [48 + n] else digits (n div 10) @ [48 + n mod 10])"

declare digits.simps [simp del]

definition str_of_int :: "int \<Rightarrow> pystr" where
  "str_of_int i = (if i < 0 then 45 # digits (nat (- i)) else digits (nat i))"

text \<open>
  Strict UTF-8 decoding: shortest form only, no surrogates, nothing above U+10FFFF.
  \<open>None\<close> stands for \<open>UnicodeDecodeError\<close>.
\<close>

definition is_cont :: "nat \<Rightarrow> bool" where
  "is_cont b = (128 \<le> b \<and> b < 192)"

fun utf8 :: "nat list \<Rightarrow> pystr option" where
  "utf8 [] = Some []"
| "utf8 (b # bs) =
     (if b < 128 then map_option ((#) b) (utf8 bs)
      else if 194 \<le> b \<and> b < 224 then
        (case bs of
           c1 # r \<Rightarrow>
             if is_cont c1
             then map_option ((#) ((b - 192) * 64 + (c1 - 128))) (utf8 r)
             else None
         | _ \<Rightarrow> None)
      else if 224 \<le> b \<and> b < 240 then
        (case bs of
           c1 # c2 # r \<Rightarrow>
             if is_cont c1 \<and> is_cont c2
                \<and> (if b = 224 then 160 \<le> c1 else True)
                \<and> (if b = 237 then c1 < 160 else True)
             then map_option ((#) ((b - 224) * 4096 + (c1 - 128) * 64 + (c2 - 128))) (utf8 r)
             else None
         | _ \<Rightarrow> None)
      else if 240 \<le> b \<and> b < 245 then
        (case bs of
           c1 # c2 # c3 # r \<Rightarrow>
             if is_cont c1 \<and> is_cont c2 \<and> is_cont c3
                \<and> (if b = 240 then 144 \<le> c1 else True)
                \<and> (if b = 244 then c1 < 144 else True)
             then map_option
                    ((#) ((b - 240) * 262144 + (c1 - 128) * 4096 + (c2 - 128) * 64 + (c3 - 128)))
                    (utf8 r)
             else None
         | _ \<Rightarrow> None)
      else None)"

definition decode_utf8 :: "byte list \<Rightarrow> pystr option" where
  "decode_utf8 bs = utf8 (map unat bs)"


text \<open>
  \<open>x += chunk_text\<close> with a \<open>str\<close> on the right: concatenation on a \<open>str\<close>, extension
  by the one-character strings on a \<open>list\<close>, \<open>TypeError\<close> otherwise.
\<close>

fun py_iadd_str :: "json \<Rightarrow> pystr \<Rightarrow> json result" where
  "py_iadd_str (JStr a) s = Inr (JStr (a @ s))"
| "py_iadd_str (JArr xs) s = Inr (JArr (xs @ map (\<lambda>c. JStr [c]) s))"
| "py_iadd_str _ s = Inl TypeError"

section \<open>The service's data: request, response envelope, events\<close>

text \<open>
  The dictionaries that the service client hands over, one record per shape, a key that
  may be absent as an \<open>option\<close>. Only the keys read by \<open>invoke_agent\<close> appear.
\<close>

record raw_response =
  rr_content :: "pystr option"

record model_invocation_output =
  mo_rawResponse :: "raw_response option"

record orchestration_trace =
  ot_modelInvocationOutput :: "model_invocation_output option"

record trace_union =
  tu_orchestrationTrace :: "orchestration_trace option"

record trace_part =
  tp_trace :: "trace_union option"

record payload_part =
  pp_bytes :: "byte list option"
  pp_sessionId :: "pystr option"

record event =
  ev_trace :: "trace_part option"
  ev_chunk :: "payload_part option"

record response =
  resp_completion :: "event list option"
  resp_sessionId :: "pystr option"

record request =
  agentId :: pystr
  agentAliasId :: pystr
  inputText :: pystr
  sessionId :: pystr
  enableTrace :: bool

text \<open>
  \<open>self\<close>: the four configured identifiers and the client, whose \<open>invoke_agent\<close> either
  raises or returns the envelope.
\<close>

record agent_core =
  privileged_agent_id :: pystr
  privileged_agent_alias_id :: pystr
  limited_agent_id :: pystr
  limited_agent_alias_id :: pystr
  client :: "request \<Rightarrow> response result"

section \<open>\<open>BedrockAgentCore.create_agent_request\<close>\<close>

text \<open>\<open>f"session-{int(time.time())}"\<close>, the clock reading \<open>now\<close> in whole seconds.\<close>

definition generated_session_id :: "int \<Rightarrow> pystr" where
  "generated_session_id now = py ''session-'' @ str_of_int now"

text \<open>\<open>session_id or default\<close> for an \<open>Optional[str]\<close>: \<open>None\<close> and \<open>''\<close> are false.\<close>

fun str_or :: "pystr option \<Rightarrow> pystr \<Rightarrow> pystr" where
  "str_or None d = d"
| "str_or (Some s) d = (if s = [] then d else s)"

definition create_agent_request ::
  "agent_core \<Rightarrow> int \<Rightarrow> pystr \<Rightarrow> bool \<Rightarrow> pystr option \<Rightarrow> request" where
  "create_agent_request self now query privilege session_id =
     (let agent_id = limited_agent_id self;
          alias_id = limited_agent_alias_id self;
          agent_id = (if privilege then privileged_agent_id self else agent_id);
          alias_id = (if privilege then privileged_agent_alias_id self else alias_id)
      in \<lparr>agentId = agent_id,
          agentAliasId = alias_id,
          inputText = query,
          sessionId = str_or session_id (generated_session_id now),
          enableTrace = True\<rparr>)"

section \<open>\<open>BedrockAgentCore.invoke_agent\<close>\<close>

subsection \<open>The trace branch (lines 121--152)\<close>

text \<open>
  The body of \<open>for content_item in message_content\<close> for one item, \<open>rt\<close> being
  \<open>response_text\<close> before the item and the result \<open>response_text\<close> after it.
\<close>

definition scan_item :: "json \<Rightarrow> json \<Rightarrow> json result" where
  "scan_item rt content_item =
     (case py_in (py ''toolUse'') content_item of
        Inl e \<Rightarrow> Inl e
      | Inr False \<Rightarrow> Inr rt
      | Inr True \<Rightarrow>
         (case py_get content_item (py ''toolUse'') JNull of
            Inl e \<Rightarrow> Inl e
          | Inr tool_use \<Rightarrow>
             if \<not> truthy tool_use then Inr rt
             else
              (case py_get tool_use (py ''name'') JNull of
                 Inl e \<Rightarrow> Inl e
               | Inr name \<Rightarrow>
                  if \<not> eq_str name (py ''AgentCommunication__sendMessage'') then Inr rt
                  else
                   (case py_get tool_use (py ''input'') (JObj []) of
                      Inl e \<Rightarrow> Inl e
                    | Inr tool_input \<Rightarrow>
                       (case py_get tool_input (py ''recipient'') JNull of
                          Inl e \<Rightarrow> Inl e
                        | Inr recipient \<Rightarrow>
                           if \<not> eq_str recipient (py ''User'') then Inr rt
                           else
                            (case py_get tool_input (py ''content'') (JStr []) of
                               Inl e \<Rightarrow> Inl e
                             | Inr extracted_content \<Rightarrow>
                                if \<not> truthy extracted_content then Inr rt
                                else
                                 (case py_slice_check extracted_content of
                                    Inl e \<Rightarrow> Inl e
                                  | Inr u \<Rightarrow> Inr extracted_content)))))))"

fun scan_items :: "json \<Rightarrow> json list \<Rightarrow> json result" where
  "scan_items rt [] = Inr rt"
| "scan_items rt (content_item # rest) =
     (case scan_item rt content_item of
        Inl e \<Rightarrow> Inl e
      | Inr rt' \<Rightarrow> scan_items rt' rest)"

text \<open>
  The string that reaches \<open>json.loads\<close>, when the event has the keys \<open>trace\<close>,
  \<open>orchestrationTrace\<close>, \<open>modelInvocationOutput\<close> and \<open>rawResponse\<close>; a \<open>rawResponse\<close>
  without \<open>content\<close> gives \<open>''\<close>, an inner \<open>trace\<close> that is absent gives \<open>{}\<close>.
\<close>

definition raw_content_of :: "event \<Rightarrow> pystr option" where
  "raw_content_of ev =
     (case ev_trace ev of
        None \<Rightarrow> None
      | Some part \<Rightarrow>
         (case tp_trace part of
            None \<Rightarrow> None
          | Some trace \<Rightarrow>
             (case tu_orchestrationTrace trace of
                None \<Rightarrow> None
              | Some orch_trace \<Rightarrow>
                 (case ot_modelInvocationOutput orch_trace of
                    None \<Rightarrow> None
                  | Some model_output \<Rightarrow>
                     (case mo_rawResponse model_output of
                        None \<Rightarrow> None
                      | Some raw \<Rightarrow> Some (case rr_content raw of None \<Rightarrow> [] | Some c \<Rightarrow> c))))))"

text \<open>
  What follows a successful \<open>json.loads\<close> inside the \<open>try\<close>: three \<open>.get\<close> calls and the
  loop over the content items.
\<close>

definition scan_parsed :: "json \<Rightarrow> json \<Rightarrow> json result" where
  "scan_parsed rt parsed =
     (case py_get parsed (py ''output'') (JObj []) of
        Inl e \<Rightarrow> Inl e
      | Inr output \<Rightarrow>
         (case py_get output (py ''message'') (JObj []) of
            Inl e \<Rightarrow> Inl e
          | Inr message \<Rightarrow>
             (case py_get message (py ''content'') (JArr []) of
                Inl e \<Rightarrow> Inl e
              | Inr message_content \<Rightarrow>
                 (case py_iter message_content of
                    Inl e \<Rightarrow> Inl e
                  | Inr items \<Rightarrow> scan_items rt items))))"

text \<open>
  The whole trace branch. \<open>json_loads\<close> is Python's \<open>json.loads\<close>, a parameter; the
  handler catches \<open>JSONDecodeError\<close> alone, every other exception leaves the \<open>try\<close>.
\<close>

definition process_trace :: "(pystr \<Rightarrow> json result) \<Rightarrow> json \<Rightarrow> event \<Rightarrow> json result" where
  "process_trace json_loads rt ev =
     (case raw_content_of ev of
        None \<Rightarrow> Inr rt
      | Some raw_content \<Rightarrow>
         (case json_loads raw_content of
            Inl JSONDecodeError \<Rightarrow> Inr rt
          | Inl e \<Rightarrow> Inl e
          | Inr parsed \<Rightarrow> scan_parsed rt parsed))"

text \<open>
  What the trace branch hands to \<open>logger.warning\<close> (line 152, the only statement of the
  handler): one record when \<open>json.loads\<close> raises \<open>JSONDecodeError\<close>, none otherwise. The
  record is the fixed start of the message; the exception's own text, which follows it,
  is not kept.
\<close>

definition trace_warnings :: "(pystr \<Rightarrow> json result) \<Rightarrow> event \<Rightarrow> pystr list" where
  "trace_warnings json_loads ev =
     (case raw_content_of ev of
        None \<Rightarrow> []
      | Some raw_content \<Rightarrow>
         (case json_loads raw_content of
            Inl JSONDecodeError \<Rightarrow> [py ''Failed to parse raw response: '']
          | Inl e \<Rightarrow> []
          | Inr parsed \<Rightarrow> []))"

subsection \<open>The chunk branch (lines 156--170) and the loop\<close>

record state =
  response_text :: json
  returned_session_id :: "pystr option"

definition process_chunk :: "state \<Rightarrow> event \<Rightarrow> state result" where
  "process_chunk st ev =
     (case ev_chunk ev of
        None \<Rightarrow> Inr st
      | Some chunk \<Rightarrow>
         (case (case pp_bytes chunk of
                  None \<Rightarrow> Inr (response_text st)
                | Some b \<Rightarrow>
                   (case decode_utf8 b of
                      None \<Rightarrow> Inl UnicodeDecodeError
                    | Some chunk_text \<Rightarrow>
                       if \<not> truthy (response_text st)
                       then py_iadd_str (response_text st) chunk_text
                       else Inr (response_text st)))
          of
            Inl e \<Rightarrow> Inl e
          | Inr rt \<Rightarrow>
             Inr \<lparr>response_text = rt,
                  returned_session_id =
                    (case pp_sessionId chunk of
                       None \<Rightarrow> returned_session_id st
                     | Some s \<Rightarrow> Some s)\<rparr>))"

definition process_event :: "(pystr \<Rightarrow> json result) \<Rightarrow> state \<Rightarrow> event \<Rightarrow> state result" where
  "process_event json_loads st ev =
     (case process_trace json_loads (response_text st) ev of
        Inl e \<Rightarrow> Inl e
      | Inr rt \<Rightarrow> process_chunk (st\<lparr>response_text := rt\<rparr>) ev)"

fun process_events :: "(pystr \<Rightarrow> json result) \<Rightarrow> state \<Rightarrow> event list \<Rightarrow> state result" where
  "process_events json_loads st [] = Inr st"
| "process_events json_loads st (ev # evs) =
     (case process_event json_loads st ev of
        Inl e \<Rightarrow> Inl e
      | Inr st' \<Rightarrow> process_events json_loads st' evs)"

definition initial_state :: state where
  "initial_state = \<lparr>response_text = JStr [], returned_session_id = None\<rparr>"

subsection \<open>Session identifier and return value (lines 177--194)\<close>

text \<open>Truth value of an \<open>Optional[str]\<close>.\<close>

fun truthy_opt :: "pystr option \<Rightarrow> bool" where
  "truthy_opt None = False"
| "truthy_opt (Some s) = (s \<noteq> [])"

text \<open>The \<open>if\<close> / \<open>elif\<close> / \<open>else\<close> chain, \<open>now\<close> being the clock when it is reached.\<close>

definition resolve_session_id ::
  "pystr option \<Rightarrow> pystr option \<Rightarrow> pystr option \<Rightarrow> int \<Rightarrow> pystr" where
  "resolve_session_id top_level returned session_id now =
     (case top_level of
        Some s \<Rightarrow> s
      | None \<Rightarrow>
         if \<not> truthy_opt returned \<and> truthy_opt session_id
         then (case session_id of Some s \<Rightarrow> s | None \<Rightarrow> [])
         else generated_session_id now)"

text \<open>
  \<open>len(response_text)\<close> for the log, then \<open>response_text.strip()\<close>: only a \<open>str\<close>
  passes both.
\<close>

fun strip_text :: "json \<Rightarrow> pystr result" where
  "strip_text (JStr s) = Inr (strip s)"
| "strip_text (JArr xs) = Inl AttributeError"
| "strip_text (JObj kvs) = Inl AttributeError"
| "strip_text _ = Inl TypeError"

text \<open>
  The whole call. \<open>t_request\<close> and \<open>t_return\<close> are the readings of \<open>time.time()\<close> when
  the request is built and when the session identifier is resolved. Both \<open>except\<close>
  clauses log and re-raise, so an exception is the result as it is.
\<close>

definition invoke_agent ::
  "agent_core \<Rightarrow> (pystr \<Rightarrow> json result) \<Rightarrow> int \<Rightarrow> int \<Rightarrow>
   pystr \<Rightarrow> bool \<Rightarrow> pystr option \<Rightarrow> (pystr \<times> pystr) result" where
  "invoke_agent self json_loads t_request t_return query privilege session_id =
     (let request = create_agent_request self t_request query privilege session_id in
      case client self request of
        Inl e \<Rightarrow> Inl e
      | Inr response \<Rightarrow>
         (case (case resp_completion response of
                  None \<Rightarrow> Inr initial_state
                | Some events \<Rightarrow> process_events json_loads initial_state events)
          of
            Inl e \<Rightarrow> Inl e
          | Inr st \<Rightarrow>
             (let sid = resolve_session_id (resp_sessionId response)
                          (returned_session_id st) session_id t_return
              in case strip_text (response_text st) of
                   Inl e \<Rightarrow> Inl e
                 | Inr text \<Rightarrow> Inr (text, sid))))"

section \<open>The tool messages of a stream, by their description\<close>

text \<open>
  The content of a content item that is a "send message to user" tool invocation: an
  object whose \<open>toolUse\<close> is an object named \<open>AgentCommunication__sendMessage\<close>, with an
  \<open>input\<close> object whose \<open>recipient\<close> is \<open>User\<close> and whose \<open>content\<close> is non-empty.
\<close>

fun send_message_content :: "json \<Rightarrow> json option" where
  "send_message_content (JObj item) =
     (case map_of item (py ''toolUse'') of
        Some (JObj tool_use) \<Rightarrow>
          if map_of tool_use (py ''name'') = Some (JStr (py ''AgentCommunication__sendMessage''))
          then
            (case map_of tool_use (py ''input'') of
               Some (JObj tool_input) \<Rightarrow>
                 if map_of tool_input (py ''recipient'') = Some (JStr (py ''User''))
                 then
                   (case map_of tool_input (py ''content'') of
                      Some c \<Rightarrow> if truthy c then Some c else None
                    | None \<Rightarrow> None)
                 else None
             | _ \<Rightarrow> None)
          else None
      | _ \<Rightarrow> None)"
| "send_message_content _ = None"

text \<open>The list at \<open>output.message.content\<close> of a parsed raw response.\<close>

definition content_items :: "json \<Rightarrow> json list" where
  "content_items parsed =
     (case parsed of
        JObj doc \<Rightarrow>
          (case map_of doc (py ''output'') of
             Some (JObj output) \<Rightarrow>
               (case map_of output (py ''message'') of
                  Some (JObj message) \<Rightarrow>
                    (case map_of message (py ''content'') of
                       Some (JArr items) \<Rightarrow> items
                     | _ \<Rightarrow> [])
                | _ \<Rightarrow> [])
           | _ \<Rightarrow> [])
      | _ \<Rightarrow> [])"

text \<open>The tool messages of one event and of a stream, in order of arrival.\<close>

definition event_messages :: "(pystr \<Rightarrow> json result) \<Rightarrow> event \<Rightarrow> json list" where
  "event_messages json_loads ev =
     (case raw_content_of ev of
        None \<Rightarrow> []
      | Some raw_content \<Rightarrow>
         (case json_loads raw_content of
            Inl e \<Rightarrow> []
          | Inr parsed \<Rightarrow> List.map_filter send_message_content (content_items parsed)))"

definition stream_messages :: "(pystr \<Rightarrow> json result) \<Rightarrow> event list \<Rightarrow> json list" where
  "stream_messages json_loads evs = concat (map (event_messages json_loads) evs)"

text \<open>A \<open>dict\<close>, as opposed to every other value.\<close>

fun is_dict :: "json \<Rightarrow> bool" where
  "is_dict (JObj kvs) = True"
| "is_dict _ = False"

section \<open>Example inputs\<close>

text \<open>
  A \<open>BedrockAgentCore\<close> whose client answers every request with \<open>reply\<close>, and events
  with a chunk only and with a trace only.
\<close>

definition example_core :: "response result \<Rightarrow> agent_core" where
  "example_core reply =
     \<lparr>privileged_agent_id = py ''PRIVAGENT1'',
      privileged_agent_alias_id = py ''PRIVALIAS1'',
      limited_agent_id = py ''LIMAGENT01'',
      limited_agent_alias_id = py ''LIMALIAS01'',
      client = (\<lambda>request. reply)\<rparr>"

definition chunk_event :: "byte list \<Rightarrow> pystr option \<Rightarrow> event" where
  "chunk_event b sid =
     \<lparr>ev_trace = None, ev_chunk = Some \<lparr>pp_bytes = Some b, pp_sessionId = sid\<rparr>\<rparr>"

definition trace_event :: "pystr \<Rightarrow> event" where
  "trace_event raw =
     \<lparr>ev_trace =
        Some \<lparr>tp_trace =
          Some \<lparr>tu_orchestrationTrace =
            Some \<lparr>ot_modelInvocationOutput =
              Some \<lparr>mo_rawResponse = Some \<lparr>rr_content = Some raw\<rparr>\<rparr>\<rparr>\<rparr>\<rparr>,
      ev_chunk = None\<rparr>"

text \<open>The bytes of \<open>b'Hello '\<close>, of \<open>b'world'\<close>, and one byte that is not UTF-8.\<close>

definition bytes_hello :: "byte list" where
  "bytes_hello = [0x48, 0x65, 0x6C, 0x6C, 0x6F, 0x20]"

definition bytes_world :: "byte list" where
  "bytes_world = [0x77, 0x6F, 0x72, 0x6C, 0x64]"

definition bytes_invalid :: "byte list" where
  "bytes_invalid = [0xFF]"

text \<open>
  Two raw responses with one tool message each, and the values \<open>json.loads\<close> gives for
  them.
\<close>

definition text_first :: pystr where
  \<open>text_first = py ''{"output": {"message": {"content": [{"toolUse": {"name": "AgentCommunication__sendMessage", "input": {"recipient": "User", "content": "first"}}}]}}}''\<close>

definition text_second :: pystr where
  \<open>text_second = py ''{"output": {"message": {"content": [{"toolUse": {"name": "AgentCommunication__sendMessage", "input": {"recipient": "User", "content": " second "}}}]}}}''\<close>

definition send_doc :: "pystr \<Rightarrow> json" where
  "send_doc c =
     JObj [(py ''output'',
       JObj [(py ''message'',
         JObj [(py ''content'',
           JArr [JObj [(py ''toolUse'',
             JObj [(py ''name'', JStr (py ''AgentCommunication__sendMessage'')),
                   (py ''input'',
                    JObj [(py ''recipient'', JStr (py ''User'')),
                          (py ''content'', JStr c)])])]])])])]"

text \<open>
  \<open>json.loads\<close> on the texts used below: the two raw responses, the array \<open>[]\<close>, and
  the truncated text \<open>{\<close>, which like every other text here counts as malformed.
\<close>

definition example_loads :: "pystr \<Rightarrow> json result" where
  "example_loads raw =
     (if raw = text_first then Inr (send_doc (py ''first''))
      else if raw = text_second then Inr (send_doc (py '' second ''))
      else if raw = py ''[]'' then Inr (JArr [])
      else Inl JSONDecodeError)"

text \<open>
  The text \<open>'[' * 100000\<close>: an array opened a hundred thousand times and never closed.
  On it \<open>json.loads\<close> runs out of recursion depth and raises \<open>RecursionError\<close>, which is
  not a \<open>JSONDecodeError\<close>. \<open>loads_deep\<close> is \<open>example_loads\<close> with that text added.
\<close>

definition text_deep :: pystr where
  "text_deep = replicate 100000 91"

definition loads_deep :: "pystr \<Rightarrow> json result" where
  "loads_deep raw =
     (if raw = text_deep then Inl (OtherError (py ''RecursionError''))
      else example_loads raw)"

text \<open>A \<open>json.loads\<close> that rejects every text, for streams without trace events.\<close>

definition loads_none :: "pystr \<Rightarrow> json result" where
  "loads_none raw = Inl JSONDecodeError"

section \<open>Evaluation of concrete calls\<close>

lemmas call_defs =
  invoke_agent_def create_agent_request_def example_core_def chunk_event_def trace_event_def
  process_event_def process_trace_def raw_content_of_def process_chunk_def decode_utf8_def
  is_cont_def initial_state_def resolve_session_id_def strip_def is_space_def
  generated_session_id_def str_of_int_def digits.simps bytes_hello_def bytes_world_def
  bytes_invalid_def loads_none_def

section \<open>Agent selection\<close>

text \<open>
  C5. The request built by \<open>create_agent_request\<close> carries the privileged agent and alias
  identifiers when \<open>privilege\<close> is true and the limited pair when it is false; it is the
  request that \<open>invoke_agent\<close> hands to the client.
\<close>

theorem create_agent_request_selects_pair:
  "agentId (create_agent_request self now query True session_id) = privileged_agent_id self
   \<and> agentAliasId (create_agent_request self now query True session_id)
       = privileged_agent_alias_id self
   \<and> agentId (create_agent_request self now query False session_id) = limited_agent_id self
   \<and> agentAliasId (create_agent_request self now query False session_id)
       = limited_agent_alias_id self"
  by (simp add: create_agent_request_def)

section \<open>Errors of the remote call\<close>

text \<open>
  C6. When the client's call raises a \<open>ClientError\<close>, \<open>invoke_agent\<close> raises the same
  error, with the same code and message, and returns no result.
\<close>

theorem client_error_propagates:
  assumes "client self (create_agent_request self t_request query privilege session_id)
             = Inl (ClientError code message)"
  shows "invoke_agent self json_loads t_request t_return query privilege session_id
           = Inl (ClientError code message)"
  using assms by (simp add: invoke_agent_def)

theorem client_error_propagates_witness:
  "invoke_agent (example_core (Inl (ClientError (py ''ThrottlingException'') (py ''Rate exceeded''))))
     loads_none 1700000000 1700000001 (py ''status?'') True None
   = Inl (ClientError (py ''ThrottlingException'') (py ''Rate exceeded''))"
  by (rule client_error_propagates) (simp add: example_core_def)

section \<open>Session identifier\<close>

text \<open>
  C1. The claim: without a top-level session identifier, a session identifier carried by
  a chunk is the one returned. The code: the chunk's identifier makes the \<open>elif\<close> test
  false, so the \<open>else\<close> branch overwrites it with a generated one. Here the envelope has
  no \<open>sessionId\<close>, the only chunk carries \<open>sess-1\<close>, the request carries none.
\<close>

theorem chunk_session_id_overwritten:
  "invoke_agent
     (example_core
        (Inr \<lparr>resp_completion = Some [chunk_event bytes_hello (Some (py ''sess-1''))],
              resp_sessionId = None\<rparr>))
     loads_none 1700000000 1700000007 (py ''status?'') False None
   = Inr (py ''Hello'', py ''session-1700000007'')"
  by (simp add: call_defs)

text \<open>
  In general: whenever a chunk has left a non-empty session identifier and the envelope
  has none at its top level, the identifier returned is a generated one.
\<close>

lemma resolve_session_id_after_chunk:
  assumes "truthy_opt returned"
  shows "resolve_session_id None returned session_id now = generated_session_id now"
  using assms by (simp add: resolve_session_id_def)

section \<open>Chunk text\<close>

text \<open>
  C3. The claim: a stream of chunks gives the concatenation of their texts, stripped. The
  code: a chunk is appended only while \<open>response_text\<close> is empty, so of the two chunks
  \<open>b'Hello '\<close> and \<open>b'world'\<close> only the first is kept.
\<close>

theorem later_chunks_dropped:
  "invoke_agent
     (example_core
        (Inr \<lparr>resp_completion = Some [chunk_event bytes_hello None, chunk_event bytes_world None],
              resp_sessionId = Some (py ''sess-1'')\<rparr>))
     loads_none 1700000000 1700000007 (py ''status?'') False None
   = Inr (py ''Hello'', py ''sess-1'')"
  by (simp add: call_defs)

section \<open>Empty and missing streams\<close>

text \<open>
  C8, as the claim states it, fails: with an empty stream, no top-level session
  identifier and the request's \<open>session_id = 'abc'\<close>, the identifier returned is \<open>abc\<close>,
  not one generated from either clock reading.
\<close>

theorem empty_stream_keeps_request_session_id:
  "invoke_agent
     (example_core (Inr \<lparr>resp_completion = Some [], resp_sessionId = None\<rparr>))
     loads_none 1700000000 1700000007 (py ''status?'') False (Some (py ''abc''))
     = Inr ([], py ''abc'')
   \<and> py ''abc'' \<noteq> generated_session_id 1700000000
   \<and> py ''abc'' \<noteq> generated_session_id 1700000007"
  by (simp add: call_defs)

text \<open>
  C8, amended. For an empty event stream and an envelope without a top-level session
  identifier, the response text is the empty string and the session identifier is the
  one supplied in the request when it is a non-empty string, otherwise a generated one.
\<close>

theorem empty_stream_result:
  assumes "client self (create_agent_request self t_request query privilege session_id)
             = Inr \<lparr>resp_completion = Some [], resp_sessionId = None\<rparr>"
  shows "invoke_agent self json_loads t_request t_return query privilege session_id
           = Inr ([], str_or session_id (generated_session_id t_return))"
  using assms
  by (cases session_id)
     (simp_all add: invoke_agent_def initial_state_def resolve_session_id_def strip_def)

theorem empty_stream_result_witness:
  "invoke_agent
     (example_core (Inr \<lparr>resp_completion = Some [], resp_sessionId = None\<rparr>))
     loads_none 1700000000 1700000007 (py ''status?'') False None
   = Inr ([], py ''session-1700000007'')"
  using empty_stream_result
          [of "example_core (Inr \<lparr>resp_completion = Some [], resp_sessionId = None\<rparr>)"
              1700000000 "py ''status?''" False None loads_none 1700000007]
  by (simp add: example_core_def generated_session_id_def str_of_int_def digits.simps)

text \<open>
  C10. An envelope without \<open>completion\<close> does not make \<open>invoke_agent\<close> raise. The call
  returns what it returns for the same envelope with an empty stream: the empty string,
  and the top-level session identifier if there is one, else the request's non-empty
  identifier, else a generated one.
\<close>

theorem missing_completion_like_empty_stream:
  assumes "client self (create_agent_request self t_request query privilege session_id)
             = Inr response"
    and "resp_completion response = None"
  shows "invoke_agent self json_loads t_request t_return query privilege session_id
           = Inr ([], case resp_sessionId response of
                        Some s \<Rightarrow> s
                      | None \<Rightarrow> str_or session_id (generated_session_id t_return))
         \<and> invoke_agent self json_loads t_request t_return query privilege session_id
           = invoke_agent
               (self\<lparr>client := \<lambda>request. Inr (response\<lparr>resp_completion := Some []\<rparr>)\<rparr>)
               json_loads t_request t_return query privilege session_id"
  using assms
  by (cases session_id; cases "resp_sessionId response")
     (simp_all add: invoke_agent_def initial_state_def resolve_session_id_def strip_def
        create_agent_request_def)

theorem missing_completion_like_empty_stream_witness:
  "invoke_agent
     (example_core (Inr \<lparr>resp_completion = None, resp_sessionId = None\<rparr>))
     loads_none 1700000000 1700000007 (py ''status?'') True (Some (py ''abc''))
   = Inr ([], py ''abc'')"
  using missing_completion_like_empty_stream
          [of "example_core (Inr \<lparr>resp_completion = None, resp_sessionId = None\<rparr>)"
              1700000000 "py ''status?''" True "Some (py ''abc'')"
              "\<lparr>resp_completion = None, resp_sessionId = None\<rparr>" loads_none 1700000007]
  by (simp add: example_core_def)

section \<open>Properties of the loop\<close>

lemma process_events_append:
  "process_events json_loads st (xs @ ys) =
     (case process_events json_loads st xs of
        Inl e \<Rightarrow> Inl e
      | Inr st' \<Rightarrow> process_events json_loads st' ys)"
  by (induction xs arbitrary: st) (auto split: sum.splits)

lemma process_chunk_undecodable:
  assumes "ev_chunk ev = Some chunk" and "pp_bytes chunk = Some b" and "decode_utf8 b = None"
  shows "process_chunk st ev = Inl UnicodeDecodeError"
  using assms by (simp add: process_chunk_def)

lemma scan_parsed_not_dict:
  assumes "\<not> is_dict parsed"
  shows "scan_parsed rt parsed = Inl AttributeError"
  using assms by (cases parsed) (simp_all add: scan_parsed_def)

lemma process_trace_not_dict:
  assumes "raw_content_of ev = Some raw" and "json_loads raw = Inr parsed"
    and "\<not> is_dict parsed"
  shows "process_trace json_loads rt ev = Inl AttributeError"
  using assms by (simp add: process_trace_def scan_parsed_not_dict)

lemma process_trace_malformed:
  assumes "raw_content_of ev = Some raw" and "json_loads raw = Inl JSONDecodeError"
  shows "process_trace json_loads rt ev = Inr rt"
  using assms by (simp add: process_trace_def)

lemma raw_content_of_no_trace: "raw_content_of (ev\<lparr>ev_trace := None\<rparr>) = None"
  by (simp add: raw_content_of_def)

lemma process_event_malformed:
  assumes "raw_content_of ev = Some raw" and "json_loads raw = Inl JSONDecodeError"
  shows "process_event json_loads st ev = process_event json_loads st (ev\<lparr>ev_trace := None\<rparr>)"
  using assms
  by (simp add: process_event_def process_trace_malformed process_trace_def
      raw_content_of_no_trace process_chunk_def)

lemma process_events_malformed:
  assumes "raw_content_of ev = Some raw" and "json_loads raw = Inl JSONDecodeError"
  shows "process_events json_loads st (pre @ ev # post)
           = process_events json_loads st (pre @ ev\<lparr>ev_trace := None\<rparr> # post)"
  using process_event_malformed [where json_loads = json_loads, OF assms]
  by (simp add: process_events_append split: sum.splits)

section \<open>Failures inside the stream\<close>

text \<open>
  C7. A chunk whose bytes are not UTF-8 is fatal: whatever the stream holds before and
  after it, \<open>invoke_agent\<close> raises and returns no result. The exception is the
  \<open>UnicodeDecodeError\<close> of that chunk, unless an earlier event, or the trace of the same
  event, has raised already.
\<close>

theorem undecodable_chunk_is_fatal:
  assumes "client self (create_agent_request self t_request query privilege session_id)
             = Inr response"
    and "resp_completion response = Some (pre @ ev # post)"
    and "ev_chunk ev = Some chunk"
    and "pp_bytes chunk = Some b"
    and "decode_utf8 b = None"
  shows "invoke_agent self json_loads t_request t_return query privilege session_id
           = Inl (case process_events json_loads initial_state pre of
                    Inl e \<Rightarrow> e
                  | Inr st \<Rightarrow>
                     (case process_trace json_loads (response_text st) ev of
                        Inl e \<Rightarrow> e
                      | Inr rt \<Rightarrow> UnicodeDecodeError))"
  using assms
  by (simp add: invoke_agent_def process_events_append process_event_def
      process_chunk_undecodable split: sum.splits)

theorem undecodable_chunk_is_fatal_witness:
  "invoke_agent
     (example_core
        (Inr \<lparr>resp_completion =
                Some [chunk_event bytes_hello None, chunk_event bytes_invalid None],
              resp_sessionId = Some (py ''sess-1'')\<rparr>))
     loads_none 1700000000 1700000007 (py ''status?'') False None
   = Inl UnicodeDecodeError"
proof -
  have "invoke_agent
     (example_core
        (Inr \<lparr>resp_completion =
                Some [chunk_event bytes_hello None, chunk_event bytes_invalid None],
              resp_sessionId = Some (py ''sess-1'')\<rparr>))
     loads_none 1700000000 1700000007 (py ''status?'') False None
   = Inl (case process_events loads_none initial_state [chunk_event bytes_hello None] of
            Inl e \<Rightarrow> e
          | Inr st \<Rightarrow>
             (case process_trace loads_none (response_text st)
                     (chunk_event bytes_invalid None) of
                Inl e \<Rightarrow> e
              | Inr rt \<Rightarrow> UnicodeDecodeError))"
    by (rule undecodable_chunk_is_fatal
          [where pre = "[chunk_event bytes_hello None]"
             and ev = "chunk_event bytes_invalid None" and post = "[]"
             and b = bytes_invalid
             and chunk = "\<lparr>pp_bytes = Some bytes_invalid, pp_sessionId = None\<rparr>"
             and response =
               "\<lparr>resp_completion =
                   Some [chunk_event bytes_hello None, chunk_event bytes_invalid None],
                 resp_sessionId = Some (py ''sess-1'')\<rparr>"])
       (simp_all add: call_defs)
  then show ?thesis by (simp add: call_defs)
qed

text \<open>
  C9. A raw response that parses, but not to a JSON object, is fatal: \<open>parsed.get\<close>
  raises \<open>AttributeError\<close>, which the handler for \<open>JSONDecodeError\<close> does not catch. The
  call raises that error, unless an earlier event has raised already.
\<close>

theorem non_object_raw_response_is_fatal:
  assumes "client self (create_agent_request self t_request query privilege session_id)
             = Inr response"
    and "resp_completion response = Some (pre @ ev # post)"
    and "raw_content_of ev = Some raw"
    and "json_loads raw = Inr parsed"
    and "\<not> is_dict parsed"
  shows "invoke_agent self json_loads t_request t_return query privilege session_id
           = Inl (case process_events json_loads initial_state pre of
                    Inl e \<Rightarrow> e
                  | Inr st \<Rightarrow> AttributeError)"
  using assms
  by (simp add: invoke_agent_def process_events_append process_event_def
      process_trace_not_dict [where json_loads = json_loads] split: sum.splits)

theorem non_object_raw_response_is_fatal_witness:
  "invoke_agent
     (example_core
        (Inr \<lparr>resp_completion =
                Some [chunk_event bytes_hello None, trace_event (py ''[]'')],
              resp_sessionId = Some (py ''sess-1'')\<rparr>))
     example_loads 1700000000 1700000007 (py ''status?'') False None
   = Inl AttributeError"
proof -
  have "invoke_agent
     (example_core
        (Inr \<lparr>resp_completion =
                Some [chunk_event bytes_hello None, trace_event (py ''[]'')],
              resp_sessionId = Some (py ''sess-1'')\<rparr>))
     example_loads 1700000000 1700000007 (py ''status?'') False None
   = Inl (case process_events example_loads initial_state [chunk_event bytes_hello None] of
            Inl e \<Rightarrow> e
          | Inr st \<Rightarrow> AttributeError)"
    by (rule non_object_raw_response_is_fatal
          [where pre = "[chunk_event bytes_hello None]"
             and ev = "trace_event (py ''[]'')" and post = "[]"
             and raw = "py ''[]''" and parsed = "JArr []"
             and response =
               "\<lparr>resp_completion =
                   Some [chunk_event bytes_hello None, trace_event (py ''[]'')],
                 resp_sessionId = Some (py ''sess-1'')\<rparr>"])
       (simp_all add: call_defs example_loads_def text_first_def text_second_def)
  then show ?thesis by (simp add: call_defs)
qed

text \<open>
  C4, as the claim states it, fails: the text \<open>'[' * 100000\<close> does not parse, yet
  \<open>json.loads\<close> raises \<open>RecursionError\<close> on it, the handler does not catch that, and the
  call raises although a chunk follows.
\<close>

theorem unparsable_trace_raises:
  "loads_deep text_deep = Inl (OtherError (py ''RecursionError''))
   \<and> invoke_agent
       (example_core
          (Inr \<lparr>resp_completion = Some [trace_event text_deep, chunk_event bytes_hello None],
                resp_sessionId = Some (py ''sess-1'')\<rparr>))
       loads_deep 1700000000 1700000007 (py ''status?'') False None
     = Inl (OtherError (py ''RecursionError''))"
  by (simp add: call_defs loads_deep_def)

text \<open>
  C4, amended. A raw response on which \<open>json.loads\<close> raises \<open>JSONDecodeError\<close> does not
  make the call raise: the trace branch logs one warning and leaves \<open>response_text\<close> as
  it was, and the call gives what it gives for the same stream with that trace taken
  out of the event.
\<close>

theorem malformed_trace_is_skipped:
  assumes "client self (create_agent_request self t_request query privilege session_id)
             = Inr response"
    and "resp_completion response = Some (pre @ ev # post)"
    and "raw_content_of ev = Some raw"
    and "json_loads raw = Inl JSONDecodeError"
  shows "process_trace json_loads rt ev = Inr rt
         \<and> trace_warnings json_loads ev = [py ''Failed to parse raw response: '']
         \<and> invoke_agent self json_loads t_request t_return query privilege session_id
           = invoke_agent
               (self\<lparr>client := \<lambda>request.
                  Inr (response\<lparr>resp_completion := Some (pre @ ev\<lparr>ev_trace := None\<rparr> # post)\<rparr>)\<rparr>)
               json_loads t_request t_return query privilege session_id"
  using assms process_events_malformed [where json_loads = json_loads, OF assms(3,4)]
  by (simp add: invoke_agent_def process_trace_malformed [where json_loads = json_loads]
      trace_warnings_def create_agent_request_def cong: sum.case_cong)

theorem malformed_trace_is_skipped_witness:
  "process_trace example_loads (JStr []) (trace_event (py ''{'')) = Inr (JStr [])
   \<and> trace_warnings example_loads (trace_event (py ''{''))
       = [py ''Failed to parse raw response: '']
   \<and> invoke_agent
       (example_core
          (Inr \<lparr>resp_completion = Some [trace_event (py ''{''), chunk_event bytes_hello None],
                resp_sessionId = Some (py ''sess-1'')\<rparr>))
       example_loads 1700000000 1700000007 (py ''status?'') False None
     = Inr (py ''Hello'', py ''sess-1'')"
proof -
  have "process_trace example_loads (JStr []) (trace_event (py ''{'')) = Inr (JStr [])
   \<and> trace_warnings example_loads (trace_event (py ''{''))
       = [py ''Failed to parse raw response: '']
   \<and> invoke_agent
     (example_core
        (Inr \<lparr>resp_completion = Some [trace_event (py ''{''), chunk_event bytes_hello None],
              resp_sessionId = Some (py ''sess-1'')\<rparr>))
     example_loads 1700000000 1700000007 (py ''status?'') False None
   = invoke_agent
       (example_core
          (Inr \<lparr>resp_completion = Some [trace_event (py ''{''), chunk_event bytes_hello None],
                resp_sessionId = Some (py ''sess-1'')\<rparr>)
        \<lparr>client := \<lambda>request.
           Inr (\<lparr>resp_completion = Some [trace_event (py ''{''), chunk_event bytes_hello None],
                  resp_sessionId = Some (py ''sess-1'')\<rparr>
                \<lparr>resp_completion :=
                   Some ([] @ (trace_event (py ''{''))\<lparr>ev_trace := None\<rparr>
                         # [chunk_event bytes_hello None])\<rparr>)\<rparr>)
       example_loads 1700000000 1700000007 (py ''status?'') False None"
    by (rule malformed_trace_is_skipped
          [where raw = "py ''{''" and pre = "[]" and ev = "trace_event (py ''{'')"
             and post = "[chunk_event bytes_hello None]"
             and response =
               "\<lparr>resp_completion =
                   Some [trace_event (py ''{''), chunk_event bytes_hello None],
                 resp_sessionId = Some (py ''sess-1'')\<rparr>"])
       (simp_all add: call_defs example_loads_def text_first_def text_second_def)
  then show ?thesis by (simp add: call_defs)
qed

section \<open>Tool messages and the response text\<close>

lemma eq_str_iff: "eq_str x l \<longleftrightarrow> x = JStr l"
  by (cases x) auto

lemma send_message_content_truthy:
  "send_message_content item = Some c \<Longrightarrow> truthy c"
  by (cases item) (auto split: option.splits json.splits if_splits)

lemma scan_item_result:
  assumes "scan_item rt item = Inr rt'"
  shows "rt' = (case send_message_content item of Some c \<Rightarrow> c | None \<Rightarrow> rt)"
proof (cases item)
  case (JObj kvs)
  then show ?thesis
    using assms
    by (auto simp: scan_item_def eq_str_iff
        split: sum.splits bool.splits if_splits option.splits json.splits)
next
  case (JStr s)
  then show ?thesis
    using assms by (auto simp: scan_item_def split: bool.splits)
next
  case (JArr xs)
  then show ?thesis
    using assms by (auto simp: scan_item_def split: bool.splits)
qed (use assms in \<open>simp_all add: scan_item_def\<close>)

lemma scan_items_result:
  "scan_items rt items = Inr rt' \<Longrightarrow>
   rt' = (if List.map_filter send_message_content items = [] then rt
          else last (List.map_filter send_message_content items))"
proof (induction items arbitrary: rt)
  case Nil
  then show ?case by simp
next
  case (Cons item items)
  from Cons.prems obtain rt1 where
    1: "scan_item rt item = Inr rt1" and 2: "scan_items rt1 items = Inr rt'"
    by (auto split: sum.splits)
  from scan_item_result [OF 1] Cons.IH [OF 2] show ?case
    by (auto split: option.splits)
qed

lemma no_message_in_strings:
  "List.map_filter send_message_content (map (\<lambda>x. JStr (f x)) xs) = []"
  by (induction xs) simp_all

lemma content_items_iter:
  assumes "py_get parsed (py ''output'') (JObj []) = Inr outp"
    and "py_get outp (py ''message'') (JObj []) = Inr message"
    and "py_get message (py ''content'') (JArr []) = Inr message_content"
    and "py_iter message_content = Inr items"
  shows "List.map_filter send_message_content items
           = List.map_filter send_message_content (content_items parsed)"
proof -
  obtain d1 where d1: "parsed = JObj d1"
    using assms(1) by (cases parsed) simp_all
  obtain d2 where d2: "outp = JObj d2"
    using assms(2) by (cases outp) simp_all
  obtain d3 where d3: "message = JObj d3"
    using assms(3) by (cases message) simp_all
  have o: "map_of d1 (py ''output'') = Some (JObj d2) \<or>
           (map_of d1 (py ''output'') = None \<and> d2 = [])"
    using assms(1) d1 d2 by (auto split: option.splits)
  have m: "map_of d2 (py ''message'') = Some (JObj d3) \<or>
           (map_of d2 (py ''message'') = None \<and> d3 = [])"
    using assms(2) d2 d3 by (auto split: option.splits)
  have c: "map_of d3 (py ''content'') = Some message_content \<or>
           (map_of d3 (py ''content'') = None \<and> message_content = JArr [])"
    using assms(3) d3 by (auto split: option.splits)
  show ?thesis
    using o m c assms(4) d1
    by (cases message_content)
       (auto simp: content_items_def no_message_in_strings)
qed

lemma scan_parsed_result:
  assumes "scan_parsed rt parsed = Inr rt'"
  shows "rt' = (if List.map_filter send_message_content (content_items parsed) = [] then rt
                else last (List.map_filter send_message_content (content_items parsed)))"
proof -
  from assms obtain outp message message_content items where
    1: "py_get parsed (py ''output'') (JObj []) = Inr outp"
    and 2: "py_get outp (py ''message'') (JObj []) = Inr message"
    and 3: "py_get message (py ''content'') (JArr []) = Inr message_content"
    and 4: "py_iter message_content = Inr items"
    and 5: "scan_items rt items = Inr rt'"
    by (auto simp: scan_parsed_def split: sum.splits)
  from scan_items_result [OF 5] content_items_iter [OF 1 2 3 4] show ?thesis
    by simp
qed

lemma process_trace_result:
  assumes "process_trace json_loads rt ev = Inr rt'"
  shows "rt' = (if event_messages json_loads ev = [] then rt
                else last (event_messages json_loads ev))"
proof (cases "raw_content_of ev")
  case None
  with assms show ?thesis
    by (simp add: process_trace_def event_messages_def)
next
  case (Some raw)
  show ?thesis
  proof (cases "json_loads raw")
    case (Inl e)
    with Some assms show ?thesis
      by (cases e) (simp_all add: process_trace_def event_messages_def)
  next
    case (Inr parsed)
    with Some assms have "scan_parsed rt parsed = Inr rt'"
      by (simp add: process_trace_def)
    from scan_parsed_result [OF this] Some Inr show ?thesis
      by (simp add: event_messages_def)
  qed
qed

lemma event_messages_truthy:
  "c \<in> set (event_messages json_loads ev) \<Longrightarrow> truthy c"
  by (auto simp: event_messages_def List.map_filter_def send_message_content_truthy
      split: option.splits sum.splits)

lemma process_chunk_keeps_truthy:
  assumes "truthy (response_text st)" and "process_chunk st ev = Inr st'"
  shows "response_text st' = response_text st"
  using assms
  by (auto simp: process_chunk_def split: option.splits sum.splits if_splits)

lemma process_event_result:
  assumes "process_event json_loads st ev = Inr st'"
  shows "event_messages json_loads ev \<noteq> []
           \<Longrightarrow> response_text st' = last (event_messages json_loads ev)"
    and "event_messages json_loads ev = [] \<Longrightarrow> truthy (response_text st)
           \<Longrightarrow> response_text st' = response_text st"
proof -
  from assms obtain rt where
    1: "process_trace json_loads (response_text st) ev = Inr rt"
    and 2: "process_chunk (st\<lparr>response_text := rt\<rparr>) ev = Inr st'"
    by (auto simp: process_event_def split: sum.splits)
  note r = process_trace_result [OF 1]
  show "response_text st' = last (event_messages json_loads ev)"
    if "event_messages json_loads ev \<noteq> []"
  proof -
    from that r have "rt = last (event_messages json_loads ev)" by simp
    moreover from that have "truthy (last (event_messages json_loads ev))"
      by (rule event_messages_truthy [OF last_in_set])
    ultimately show ?thesis
      using process_chunk_keeps_truthy [OF _ 2] by simp
  qed
  show "response_text st' = response_text st"
    if "event_messages json_loads ev = []" and "truthy (response_text st)"
    using that r process_chunk_keeps_truthy [OF _ 2] by simp
qed

lemma process_events_no_messages:
  assumes "process_events json_loads st evs = Inr st'"
    and "stream_messages json_loads evs = []"
    and "truthy (response_text st)"
  shows "response_text st' = response_text st"
  using assms
proof (induction evs arbitrary: st)
  case Nil
  then show ?case by simp
next
  case (Cons ev evs)
  from Cons.prems(1) obtain st1 where
    1: "process_event json_loads st ev = Inr st1"
    and 2: "process_events json_loads st1 evs = Inr st'"
    by (auto split: sum.splits)
  from Cons.prems(2) have e: "event_messages json_loads ev = []"
    and s: "stream_messages json_loads evs = []"
    by (simp_all add: stream_messages_def)
  from process_event_result(2) [OF 1 e Cons.prems(3)]
  have k: "response_text st1 = response_text st" .
  with Cons.IH [OF 2 s] Cons.prems(3) show ?case by simp
qed

lemma process_events_last_message:
  assumes "process_events json_loads st evs = Inr st'"
    and "stream_messages json_loads evs \<noteq> []"
  shows "response_text st' = last (stream_messages json_loads evs)"
  using assms
proof (induction evs arbitrary: st)
  case Nil
  then show ?case by (simp add: stream_messages_def)
next
  case (Cons ev evs)
  from Cons.prems(1) obtain st1 where
    1: "process_event json_loads st ev = Inr st1"
    and 2: "process_events json_loads st1 evs = Inr st'"
    by (auto split: sum.splits)
  have split: "stream_messages json_loads (ev # evs)
                 = event_messages json_loads ev @ stream_messages json_loads evs"
    by (simp add: stream_messages_def)
  show ?case
  proof (cases "stream_messages json_loads evs = []")
    case False
    with Cons.IH [OF 2] split show ?thesis by simp
  next
    case True
    with Cons.prems(2) split have ne: "event_messages json_loads ev \<noteq> []" by simp
    from process_event_result(1) [OF 1 ne]
    have k: "response_text st1 = last (event_messages json_loads ev)" .
    with ne have "truthy (response_text st1)"
      by (simp add: event_messages_truthy [OF last_in_set])
    from process_events_no_messages [OF 2 True this] k split True show ?thesis
      by simp
  qed
qed

lemma example_loads_first: "example_loads text_first = Inr (send_doc (py ''first''))"
  by (simp add: example_loads_def)

lemma example_loads_second: "example_loads text_second = Inr (send_doc (py '' second ''))"
  by (simp add: example_loads_def text_first_def text_second_def)

lemma scan_parsed_send_doc:
  "scan_parsed rt (send_doc c) = (if c = [] then Inr rt else Inr (JStr c))"
  by (simp add: scan_parsed_def send_doc_def scan_item_def)

lemma event_messages_trace_event:
  assumes "json_loads raw = Inr (send_doc c)" and "c \<noteq> []"
  shows "event_messages json_loads (trace_event raw) = [JStr c]"
  using assms
  by (simp add: event_messages_def raw_content_of_def trace_event_def content_items_def
      send_doc_def)

lemma event_messages_chunk_event: "event_messages json_loads (chunk_event b sid) = []"
  by (simp add: event_messages_def raw_content_of_def chunk_event_def)

text \<open>
  C2, as the claim states it, fails when two tool messages arrive: the first trace sends
  \<open>first\<close>, the second sends \<open>second\<close>, and the text returned is that of the second, not
  that of the first.
\<close>

theorem earlier_tool_message_replaced:
  "invoke_agent
     (example_core
        (Inr \<lparr>resp_completion = Some [trace_event text_first, trace_event text_second],
              resp_sessionId = Some (py ''sess-1'')\<rparr>))
     example_loads 1700000000 1700000007 (py ''status?'') False None
     = Inr (py ''second'', py ''sess-1'')
   \<and> event_messages example_loads (trace_event text_first) = [JStr (py ''first'')]
   \<and> py ''second'' \<noteq> strip (py ''first'')"
proof (intro conjI)
  show "invoke_agent
     (example_core
        (Inr \<lparr>resp_completion = Some [trace_event text_first, trace_event text_second],
              resp_sessionId = Some (py ''sess-1'')\<rparr>))
     example_loads 1700000000 1700000007 (py ''status?'') False None
     = Inr (py ''second'', py ''sess-1'')"
    by (simp add: call_defs example_loads_first example_loads_second scan_parsed_send_doc)
  show "event_messages example_loads (trace_event text_first) = [JStr (py ''first'')]"
    by (simp add: event_messages_trace_event [where json_loads = example_loads, OF example_loads_first])
  show "py ''second'' \<noteq> strip (py ''first'')"
    by (simp add: strip_def is_space_def)
qed

text \<open>
  C2, amended. Chunk text never changes a response text that is already non-empty, as
  one set from a tool message is. And when the stream holds at least one "send message
  to user" invocation with non-empty content and the call returns, the text returned is
  the content of the last of them, stripped, whatever the chunks carry.
\<close>

theorem last_tool_message_wins:
  assumes "client self (create_agent_request self t_request query privilege session_id)
             = Inr response"
    and "resp_completion response = Some evs"
    and "stream_messages json_loads evs \<noteq> []"
    and "invoke_agent self json_loads t_request t_return query privilege session_id
           = Inr (text, sid)"
  shows "(\<exists>s. last (stream_messages json_loads evs) = JStr s \<and> text = strip s)
         \<and> (\<forall>st ev st'. truthy (response_text st) \<and> process_chunk st ev = Inr st'
               \<longrightarrow> response_text st' = response_text st)"
proof
  from assms(1,2,4) obtain st where
    1: "process_events json_loads initial_state evs = Inr st"
    and 2: "strip_text (response_text st) = Inr text"
    by (auto simp: invoke_agent_def Let_def split: sum.splits)
  from process_events_last_message [OF 1 assms(3)]
  have 3: "response_text st = last (stream_messages json_loads evs)" .
  from 2 obtain s where 4: "response_text st = JStr s" and 5: "text = strip s"
    by (cases "response_text st") auto
  from 3 4 have "last (stream_messages json_loads evs) = JStr s" by simp
  with 5 show "\<exists>s. last (stream_messages json_loads evs) = JStr s \<and> text = strip s"
    by blast
next
  show "\<forall>st ev st'. truthy (response_text st) \<and> process_chunk st ev = Inr st'
          \<longrightarrow> response_text st' = response_text st"
    using process_chunk_keeps_truthy by blast
qed

theorem last_tool_message_wins_witness:
  "last (stream_messages example_loads
           [chunk_event bytes_hello None, trace_event text_first,
            trace_event text_second, chunk_event bytes_world None])
     = JStr (py '' second '')
   \<and> py ''second'' = strip (py '' second '')
   \<and> truthy (response_text \<lparr>response_text = JStr (py '' second ''),
                                returned_session_id = None\<rparr>)
   \<and> process_chunk
         \<lparr>response_text = JStr (py '' second ''), returned_session_id = None\<rparr>
         (chunk_event bytes_world (Some (py ''sess-2'')))
       = Inr \<lparr>response_text = JStr (py '' second ''),
               returned_session_id = Some (py ''sess-2'')\<rparr>
   \<and> response_text \<lparr>response_text = JStr (py '' second ''),
                       returned_session_id = Some (py ''sess-2'')\<rparr>
       = response_text \<lparr>response_text = JStr (py '' second ''),
                         returned_session_id = None\<rparr>"
proof -
  have msgs: "stream_messages example_loads
          [chunk_event bytes_hello None, trace_event text_first,
           trace_event text_second, chunk_event bytes_world None]
        = [JStr (py ''first''), JStr (py '' second '')]"
    by (simp add: stream_messages_def event_messages_chunk_event
        event_messages_trace_event [where json_loads = example_loads, OF example_loads_first]
        event_messages_trace_event [where json_loads = example_loads, OF example_loads_second])
  have w: "(\<exists>s. last (stream_messages example_loads
              [chunk_event bytes_hello None, trace_event text_first,
               trace_event text_second, chunk_event bytes_world None]) = JStr s
        \<and> py ''second'' = strip s)
   \<and> (\<forall>st ev st'. truthy (response_text st) \<and> process_chunk st ev = Inr st'
         \<longrightarrow> response_text st' = response_text st)"
  proof (rule last_tool_message_wins
        [where self =
           "example_core
              (Inr \<lparr>resp_completion =
                      Some [chunk_event bytes_hello None, trace_event text_first,
                            trace_event text_second, chunk_event bytes_world None],
                    resp_sessionId = Some (py ''sess-1'')\<rparr>)"
           and response =
             "\<lparr>resp_completion =
                 Some [chunk_event bytes_hello None, trace_event text_first,
                       trace_event text_second, chunk_event bytes_world None],
               resp_sessionId = Some (py ''sess-1'')\<rparr>"
           and t_request = 1700000000 and t_return = 1700000007
           and query = "py ''status?''" and privilege = False and session_id = None
           and sid = "py ''sess-1''"])
    show "stream_messages example_loads
            [chunk_event bytes_hello None, trace_event text_first,
             trace_event text_second, chunk_event bytes_world None] \<noteq> []"
      by (simp add: msgs)
  qed (simp_all add: call_defs example_loads_first example_loads_second scan_parsed_send_doc)
  have t: "truthy (response_text \<lparr>response_text = JStr (py '' second ''),
                                    returned_session_id = None\<rparr>)"
    by simp
  have c: "process_chunk
         \<lparr>response_text = JStr (py '' second ''), returned_session_id = None\<rparr>
         (chunk_event bytes_world (Some (py ''sess-2'')))
       = Inr \<lparr>response_text = JStr (py '' second ''),
               returned_session_id = Some (py ''sess-2'')\<rparr>"
    by (simp add: process_chunk_def chunk_event_def decode_utf8_def bytes_world_def)
  from w msgs have "py ''second'' = strip (py '' second '')"
    by auto
  moreover from w t c
  have "response_text \<lparr>response_text = JStr (py '' second ''),
                       returned_session_id = Some (py ''sess-2'')\<rparr>
       = response_text \<lparr>response_text = JStr (py '' second ''),
                         returned_session_id = None\<rparr>"
    by blast
  ultimately show ?thesis
    using msgs t c by simp
qed

end
